theory Spec2Isabelle
  imports Main "HOL-Library.Word"
begin

section \<open>Values exchanged with the web3 library\<close>

text \<open>
  The signer classes of \<^verbatim>\<open>06-hsm-integration\<close> build on \<^verbatim>\<open>@solana/web3.js\<close>.
  A thrown JavaScript \<^verbatim>\<open>Error\<close> is a value carrying its message; a call that may throw
  returns \<open>error + 'a\<close>, with \<open>Inl\<close> for the throw.
\<close>

type_synonym bytes = "8 word list"

datatype error = Error (message: string)

datatype publicKey = PublicKey bytes

record keypair =
  kp_publicKey :: publicKey
  kp_secretKey :: bytes

record instruction =
  fromPubkey :: publicKey
  toPubkey :: publicKey
  lamports :: nat

record transaction =
  instructions :: "instruction list"
  recentBlockhash :: "string option"
  lastValidBlockHeight :: "nat option"
  feePayer :: "publicKey option"
  signatures :: "(publicKey \<times> bytes) list"

text \<open>
  Console output, one entry per \<^verbatim>\<open>console.log\<close>, \<^verbatim>\<open>console.warn\<close> or \<^verbatim>\<open>console.error\<close>
  call: the arguments joined by a space, an error object shown by its message.
\<close>

datatype console_line = Log string | Warn string | Err string

text \<open>
  A \<^verbatim>\<open>Connection\<close> object, as far as the transfer flow uses it: each request either
  throws or returns. \<^verbatim>\<open>sendAndConfirmRawTransaction\<close> is the library function applied to
  this connection.
\<close>

record connection =
  requestAirdrop :: "publicKey \<Rightarrow> nat \<Rightarrow> error + string"
  confirmTransaction :: "string \<Rightarrow> error + unit"
  getLatestBlockhash :: "error + string \<times> nat"
  sendAndConfirmRawTransaction :: "bytes \<Rightarrow> error + string"

text \<open>
  The library functions the code calls are not part of the repository; they are a
  parameter of the model. \<open>fromSeed\<close> is \<^verbatim>\<open>Keypair.fromSeed\<close> on a 32-byte buffer (where
  it does not throw), \<open>partialSign\<close> is \<^verbatim>\<open>Transaction.partialSign\<close> returning the
  transaction it has mutated, \<open>Connection\<close> is \<^verbatim>\<open>new Connection(url, 'confirmed')\<close>.
\<close>

record web3 =
  fromSeed :: "bytes \<Rightarrow> keypair"
  partialSign :: "keypair \<Rightarrow> transaction \<Rightarrow> error + transaction"
  serialize :: "transaction \<Rightarrow> error + bytes"
  toBase58 :: "publicKey \<Rightarrow> string"
  clusterApiUrl :: "string \<Rightarrow> string"
  Connection :: "string \<Rightarrow> error + connection"

section \<open>Node buffers\<close>

definition Buffer_alloc :: "nat \<Rightarrow> bytes" where
  "Buffer_alloc n = replicate n 0"

text \<open>
  A string is given by its UTF-8 bytes. \<^verbatim>\<open>buf.write(string)\<close> copies characters from
  offset 0 while a whole character still fits: a partially encoded character is not
  written. \<open>utf8_len\<close> is the length of the character that starts with a given byte.
\<close>

definition utf8_len :: "8 word \<Rightarrow> nat" where
  "utf8_len b = (if b < 0x80 then 1 else if b < 0xE0 then 2 else if b < 0xF0 then 3 else 4)"

fun utf8_fit :: "nat \<Rightarrow> bytes \<Rightarrow> bytes" where
  "utf8_fit room [] = []"
| "utf8_fit room (b # bs) =
     (if utf8_len b \<le> room \<and> utf8_len b \<le> Suc (length bs)
      then b # take (utf8_len b - 1) bs
           @ utf8_fit (room - utf8_len b) (drop (utf8_len b - 1) bs)
      else [])"

definition Buffer_write :: "bytes \<Rightarrow> string \<Rightarrow> bytes" where
  "Buffer_write buf str =
     (let written = utf8_fit (length buf) (map of_char str)
      in written @ drop (length written) buf)"

section \<open>The signer interface: class HSMSigner\<close>

text \<open>The field \<^verbatim>\<open>_publicKey\<close> is \<open>priv_publicKey\<close>; \<^verbatim>\<open>null\<close> is \<open>None\<close>.\<close>

record HSMSigner =
  priv_publicKey :: "publicKey option"

definition new_HSMSigner :: HSMSigner where
  "new_HSMSigner = \<lparr>priv_publicKey = None\<rparr>"

text \<open>The accessor \<^verbatim>\<open>get publicKey()\<close>, inherited by every subclass.\<close>

definition publicKey :: "'a HSMSigner_scheme \<Rightarrow> error + publicKey" where
  "publicKey this =
     (case priv_publicKey this of
        None \<Rightarrow> Inl (Error ''HSM not initialized. Call connect() first.'')
      | Some k \<Rightarrow> Inr k)"

text \<open>\<^verbatim>\<open>HSMSigner.disconnect\<close> has an empty body.\<close>

definition HSMSigner_disconnect :: "'a HSMSigner_scheme \<Rightarrow> (error + unit) \<times> 'a HSMSigner_scheme" where
  "HSMSigner_disconnect this = (Inr (), this)"

text \<open>
  \<^verbatim>\<open>signAllTransactions\<close> calls \<^verbatim>\<open>this.signTransaction\<close>, which a subclass supplies: the
  method is the first argument, and it may change the signer's state \<open>'s\<close>. A throw of
  \<^verbatim>\<open>signTransaction\<close> leaves the loop and the method at once; the local array
  \<^verbatim>\<open>signed\<close> (here \<open>signed_txs\<close>) is then lost.
\<close>

fun signAll_loop ::
  "('s \<Rightarrow> 'tx \<Rightarrow> (error + 'tx) \<times> 's) \<Rightarrow> 's \<Rightarrow> 'tx list \<Rightarrow> 'tx list \<Rightarrow> (error + 'tx list) \<times> 's" where
  "signAll_loop signTx this signed_txs [] = (Inr signed_txs, this)"
| "signAll_loop signTx this signed_txs (tx # txs) =
     (case signTx this tx of
        (Inl e, this') \<Rightarrow> (Inl e, this')
      | (Inr t, this') \<Rightarrow> signAll_loop signTx this' (signed_txs @ [t]) txs)"

definition signAllTransactions ::
  "('s \<Rightarrow> 'tx \<Rightarrow> (error + 'tx) \<times> 's) \<Rightarrow> 's \<Rightarrow> 'tx list \<Rightarrow> (error + 'tx list) \<times> 's" where
  "signAllTransactions signTx this transactions = signAll_loop signTx this [] transactions"

section \<open>The development backend: class MockHSMSigner\<close>

record MockHSMSigner = HSMSigner +
  seedPhrase :: string
  keypair :: "keypair option"

text \<open>The constructor; an omitted argument takes the default \<^verbatim>\<open>'test-seed'\<close>.\<close>

definition new_MockHSMSigner :: "string option \<Rightarrow> MockHSMSigner" where
  "new_MockHSMSigner arg =
     \<lparr>priv_publicKey = None,
      seedPhrase = (case arg of None \<Rightarrow> ''test-seed'' | Some s \<Rightarrow> s),
      keypair = None\<rparr>"

definition seed_of :: "string \<Rightarrow> bytes" where
  "seed_of phrase = Buffer_write (Buffer_alloc 32) phrase"

text \<open>
  \<^verbatim>\<open>connect\<close> has no \<^verbatim>\<open>return\<close> statement: the value it resolves to is \<^verbatim>\<open>undefined\<close>,
  written \<open>None\<close> in a result type that could hold an identity. The first console entry
  is the warning, without its leading sign.
\<close>

definition connect ::
  "web3 \<Rightarrow> MockHSMSigner \<Rightarrow> (error + publicKey option) \<times> MockHSMSigner \<times> console_line list" where
  "connect lib this =
     (let seed = seed_of (seedPhrase this);
          kp = fromSeed lib seed;
          this' = this\<lparr>keypair := Some kp, priv_publicKey := Some (kp_publicKey kp)\<rparr>
      in (Inr None, this',
          [Warn ''Using MockHSMSigner - FOR DEVELOPMENT ONLY!'',
           Log ''Mock HSM connected'',
           Log (''Public key: '' @ toBase58 lib (kp_publicKey kp))]))"

text \<open>
  \<^verbatim>\<open>signTransaction\<close> assigns no field of the signer. The 100 ms delay is not modelled.
\<close>

definition signTransaction :: "web3 \<Rightarrow> MockHSMSigner \<Rightarrow> transaction \<Rightarrow> error + transaction" where
  "signTransaction lib this tx =
     (case keypair this of
        None \<Rightarrow> Inl (Error ''Mock HSM not connected'')
      | Some kp \<Rightarrow> partialSign lib kp tx)"

definition disconnect :: "MockHSMSigner \<Rightarrow> (error + unit) \<times> MockHSMSigner \<times> console_line list" where
  "disconnect this =
     (Inr (), this\<lparr>keypair := None, priv_publicKey := None\<rparr>, [Log ''Mock HSM disconnected''])"

text \<open>The inherited batch method of a \<^verbatim>\<open>MockHSMSigner\<close>.\<close>

definition Mock_signAllTransactions ::
  "web3 \<Rightarrow> MockHSMSigner \<Rightarrow> transaction list \<Rightarrow> (error + transaction list) \<times> MockHSMSigner" where
  "Mock_signAllTransactions lib this txs =
     signAllTransactions (\<lambda>s tx. (signTransaction lib s tx, s)) this txs"

text \<open>
  The history of one instance: the method calls made on it since its construction.
  \<open>invoke\<close> gives the instance after one call, whatever the call returned.
\<close>

datatype call =
    Connect
  | ReadPublicKey
  | SignTransaction transaction
  | SignAllTransactions "transaction list"
  | Disconnect

fun invoke :: "web3 \<Rightarrow> MockHSMSigner \<Rightarrow> call \<Rightarrow> MockHSMSigner" where
  "invoke lib this Connect = fst (snd (connect lib this))"
| "invoke lib this ReadPublicKey = this"
| "invoke lib this (SignTransaction tx) = this"
| "invoke lib this (SignAllTransactions txs) = snd (Mock_signAllTransactions lib this txs)"
| "invoke lib this Disconnect = fst (snd (disconnect this))"

definition instance_after :: "web3 \<Rightarrow> string option \<Rightarrow> call list \<Rightarrow> MockHSMSigner" where
  "instance_after lib arg history = foldl (invoke lib) (new_MockHSMSigner arg) history"

text \<open>
  The lifecycle state that a history leaves: Connected when \<^verbatim>\<open>connect\<close> has been called
  and \<^verbatim>\<open>disconnect\<close> has not been called since.
\<close>

fun lifecycle :: "bool \<Rightarrow> call \<Rightarrow> bool" where
  "lifecycle c Connect = True"
| "lifecycle c Disconnect = False"
| "lifecycle c ReadPublicKey = c"
| "lifecycle c (SignTransaction tx) = c"
| "lifecycle c (SignAllTransactions txs) = c"

definition Connected :: "call list \<Rightarrow> bool" where
  "Connected history = foldl lifecycle False history"

text \<open>
  \<^verbatim>\<open>sign_batch\<close> as the specification words it: the results signed so far, together
  with the error when a signature failed. \<open>received\<close> is what the caller of the
  JavaScript method gets in each case: the returned array, or the thrown error alone.
\<close>

fun sign_batch_spec ::
  "('s \<Rightarrow> 'tx \<Rightarrow> (error + 'tx) \<times> 's) \<Rightarrow> 's \<Rightarrow> 'tx list \<Rightarrow> ('tx list \<times> error option) \<times> 's" where
  "sign_batch_spec signTx this [] = (([], None), this)"
| "sign_batch_spec signTx this (tx # txs) =
     (case signTx this tx of
        (Inl e, this') \<Rightarrow> (([], Some e), this')
      | (Inr t, this') \<Rightarrow>
          (case sign_batch_spec signTx this' txs of
             ((ts, r), this'') \<Rightarrow> ((t # ts, r), this'')))"

fun received :: "error + 'tx list \<Rightarrow> 'tx list \<times> error option" where
  "received (Inr ts) = (ts, None)"
| "received (Inl e) = ([], Some e)"

fun forget_partial :: "'tx list \<times> error option \<Rightarrow> error + 'tx list" where
  "forget_partial (ts, None) = Inr ts"
| "forget_partial (ts, Some e) = Inl e"

section \<open>The transfer flow: main of hsm-sol-transfer\<close>

record process_env =
  SOLANA_ENV :: "string option"
  RPC_ENDPOINT :: "string option"

definition LAMPORTS_PER_SOL :: nat where
  "LAMPORTS_PER_SOL = 1000000000"

text \<open>\<^verbatim>\<open>x || dflt\<close> on an environment variable: unset and empty both give the default.\<close>

definition or_default :: "string option \<Rightarrow> string \<Rightarrow> string" where
  "or_default v dflt = (case v of None \<Rightarrow> dflt | Some s \<Rightarrow> if s = [] then dflt else s)"

definition select_connection :: "web3 \<Rightarrow> process_env \<Rightarrow> string \<Rightarrow> error + connection" where
  "select_connection lib env environment =
     (if environment = ''localnet'' then Connection lib ''http://localhost:8899''
      else if environment = ''devnet'' then Connection lib (clusterApiUrl lib ''devnet'')
      else if environment = ''mainnet-beta''
        then Connection lib (or_default (RPC_ENDPOINT env) (clusterApiUrl lib ''mainnet-beta''))
      else Inl (Error (''Unknown environment: '' @ environment)))"

text \<open>
  The inner \<^verbatim>\<open>try\<close> around the airdrop. The result is \<open>True\<close> when control goes on
  after the block and \<open>False\<close> when its \<^verbatim>\<open>catch\<close> returns from \<^verbatim>\<open>main\<close>.
\<close>

definition fund_wallet :: "connection \<Rightarrow> MockHSMSigner \<Rightarrow> bool \<times> console_line list" where
  "fund_wallet conn hsmSigner =
     (case publicKey hsmSigner of
        Inl e \<Rightarrow> (False, [Log ''Requesting airdrop for HSM wallet...'',
                          Err (''Airdrop failed: '' @ message e)])
      | Inr pk \<Rightarrow>
         (case requestAirdrop conn pk (2 * LAMPORTS_PER_SOL) of
            Inl e \<Rightarrow> (False, [Log ''Requesting airdrop for HSM wallet...'',
                              Err (''Airdrop failed: '' @ message e)])
          | Inr airdropSignature \<Rightarrow>
             (case confirmTransaction conn airdropSignature of
                Inl e \<Rightarrow> (False, [Log ''Requesting airdrop for HSM wallet...'',
                                  Err (''Airdrop failed: '' @ message e)])
              | Inr u \<Rightarrow> (True, [Log ''Requesting airdrop for HSM wallet...'',
                                 Log ''Airdrop successful!'']))))"

text \<open>The address \<^verbatim>\<open>11111111111111111111111111111111\<close> is the 32 zero bytes.\<close>

definition recipient :: publicKey where
  "recipient = PublicKey (replicate 32 0)"

text \<open>
  Steps 3 to 6, after the funding block, up to the end of the \<^verbatim>\<open>try\<close> body: \<open>Inl\<close> is a
  throw that reaches the outer \<^verbatim>\<open>catch\<close>. \<^verbatim>\<open>0.1 * LAMPORTS_PER_SOL\<close> is 100000000.
\<close>

definition transfer_steps ::
  "web3 \<Rightarrow> connection \<Rightarrow> string \<Rightarrow> MockHSMSigner \<Rightarrow> (error + unit) \<times> console_line list" where
  "transfer_steps lib conn environment hsmSigner =
     (case publicKey hsmSigner of
        Inl e \<Rightarrow> (Inl e, [])
      | Inr sender \<Rightarrow>
         (case getLatestBlockhash conn of
            Inl e \<Rightarrow> (Inl e, [])
          | Inr (blockhash, height) \<Rightarrow>
             (case publicKey hsmSigner of
                Inl e \<Rightarrow> (Inl e, [])
              | Inr payer \<Rightarrow>
                 (let tx = \<lparr>instructions =
                              [\<lparr>fromPubkey = sender, toPubkey = recipient, lamports = 100000000\<rparr>],
                            recentBlockhash = Some blockhash,
                            lastValidBlockHeight = Some height,
                            feePayer = Some payer,
                            signatures = []\<rparr>
                  in (case signTransaction lib hsmSigner tx of
                        Inl e \<Rightarrow> (Inl e, [Log ''Signing transaction with HSM...''])
                      | Inr signedTransaction \<Rightarrow>
                         (case serialize lib signedTransaction of
                            Inl e \<Rightarrow> (Inl e, [Log ''Signing transaction with HSM...'',
                                              Log ''Sending transaction...''])
                          | Inr raw \<Rightarrow>
                             (case sendAndConfirmRawTransaction conn raw of
                                Inl e \<Rightarrow> (Inl e, [Log ''Signing transaction with HSM...'',
                                                  Log ''Sending transaction...''])
                              | Inr signature \<Rightarrow>
                                 (Inr (),
                                  [Log ''Signing transaction with HSM...'',
                                   Log ''Sending transaction...'',
                                   Log ''Transaction successful!'',
                                   Log (''Signature: '' @ signature)]
                                  @ (if environment = ''devnet''
                                     then [Log (''View on explorer: https://explorer.solana.com/tx/''
                                                @ signature @ ''?cluster=devnet'')]
                                     else if environment = ''localnet''
                                     then [Log ''Transaction completed on localnet'']
                                     else [])))))))))"

text \<open>The body of the outer \<^verbatim>\<open>try\<close>.\<close>

definition try_body ::
  "web3 \<Rightarrow> connection \<Rightarrow> string \<Rightarrow> MockHSMSigner \<Rightarrow> (error + unit) \<times> console_line list" where
  "try_body lib conn environment hsmSigner =
     (if environment = ''localnet'' \<or> environment = ''devnet''
      then (case fund_wallet conn hsmSigner of
              (False, out) \<Rightarrow> (Inr (), out)
            | (True, out) \<Rightarrow>
               (case transfer_steps lib conn environment hsmSigner of
                  (r, out') \<Rightarrow> (r, out @ out')))
      else transfer_steps lib conn environment hsmSigner)"

text \<open>
  \<^verbatim>\<open>main\<close>: the outcome of the promise, the signer if one was constructed, and the console.
  The \<^verbatim>\<open>catch\<close> clause logs the error; the \<^verbatim>\<open>finally\<close> clause calls \<^verbatim>\<open>disconnect\<close>, and a
  throw of \<^verbatim>\<open>connect\<close> or of \<^verbatim>\<open>disconnect\<close> would leave \<^verbatim>\<open>main\<close>.
\<close>

definition main ::
  "web3 \<Rightarrow> process_env \<Rightarrow> (error + unit) \<times> MockHSMSigner option \<times> console_line list" where
  "main lib env =
     (let environment = or_default (SOLANA_ENV env) ''localnet''
      in case select_connection lib env environment of
           Inl e \<Rightarrow> (Inl e, None, [])
         | Inr conn \<Rightarrow>
            (case connect lib (new_MockHSMSigner (Some ''my-secure-seed'')) of
               (Inl e, hsmSigner, out1) \<Rightarrow>
                 (Inl e, Some hsmSigner, Log (''Connected to '' @ environment) # out1)
             | (Inr u, hsmSigner, out1) \<Rightarrow>
                 (case try_body lib conn environment hsmSigner of
                    (r, out2) \<Rightarrow>
                      (let out3 = (case r of
                                     Inl e \<Rightarrow> [Err (''Transaction failed: '' @ message e)]
                                   | Inr v \<Rightarrow> [])
                       in case disconnect hsmSigner of
                            (d, hsmSigner', out4) \<Rightarrow>
                              (case d of
                                 Inl e \<Rightarrow> Inl e
                               | Inr v \<Rightarrow> Inr (),
                               Some hsmSigner',
                               Log (''Connected to '' @ environment) # out1 @ out2 @ out3 @ out4)))))"

text \<open>
  A stand-in for the library (not the real Ed25519), to evaluate the model with. As in
  the library, \<open>partialSign\<close> throws on a transaction without recent block hash, on one
  without fee payer and on a signer that the transaction does not name; an empty list of
  instructions is no error.
\<close>

definition stub_connection :: connection where
  "stub_connection =
     \<lparr>requestAirdrop = (\<lambda>pk n. Inr ''airdrop-signature''),
      confirmTransaction = (\<lambda>sig. Inr ()),
      getLatestBlockhash = Inr (''blockhash'', 100),
      sendAndConfirmRawTransaction = (\<lambda>raw. Inl (Error ''Blockhash not found''))\<rparr>"

definition stub_web3 :: web3 where
  "stub_web3 =
     \<lparr>fromSeed = (\<lambda>seed. \<lparr>kp_publicKey = PublicKey seed, kp_secretKey = seed\<rparr>),
      partialSign = (\<lambda>kp tx.
         if recentBlockhash tx = None then Inl (Error ''Transaction recentBlockhash required'')
         else if feePayer tx = None then Inl (Error ''Transaction fee payer required'')
         else if feePayer tx \<noteq> Some (kp_publicKey kp)
                 \<and> kp_publicKey kp \<notin> set (map fromPubkey (instructions tx))
           then Inl (Error ''unknown signer'')
         else Inr (tx\<lparr>signatures := signatures tx @ [(kp_publicKey kp, kp_secretKey kp)]\<rparr>)),
      serialize = (\<lambda>tx. Inr []),
      toBase58 = (\<lambda>k. ''base58''),
      clusterApiUrl = (\<lambda>cluster. ''https://api.'' @ cluster @ ''.solana.com''),
      Connection = (\<lambda>url. Inr stub_connection)\<rparr>"

definition tx_transfer :: transaction where
  "tx_transfer =
     \<lparr>instructions = [\<lparr>fromPubkey = recipient, toPubkey = recipient, lamports = 1\<rparr>],
      recentBlockhash = None, lastValidBlockHeight = None, feePayer = None, signatures = []\<rparr>"

text \<open>A transfer that is ready to be signed by the holder of \<open>payer\<close>; \<open>tx_transfer\<close>
  above has no recent block hash yet.\<close>

definition tx_signable :: "publicKey \<Rightarrow> transaction" where
  "tx_signable payer =
     \<lparr>instructions = [\<lparr>fromPubkey = payer, toPubkey = recipient, lamports = 1\<rparr>],
      recentBlockhash = Some ''blockhash'', lastValidBlockHeight = Some 100,
      feePayer = Some payer, signatures = []\<rparr>"

text \<open>
  The fields of an instance agree with its lifecycle state: both \<^verbatim>\<open>null\<close> when not
  connected, the key pair of the seed and its public key when connected.
\<close>

definition consistent :: "web3 \<Rightarrow> bool \<Rightarrow> MockHSMSigner \<Rightarrow> bool" where
  "consistent lib c s =
     (if c then keypair s = Some (fromSeed lib (seed_of (seedPhrase s))) \<and>
                priv_publicKey s = Some (kp_publicKey (fromSeed lib (seed_of (seedPhrase s))))
      else keypair s = None \<and> priv_publicKey s = None)"

section \<open>The authorization engine behind the multisig calls\<close>

text \<open>
  \<^verbatim>\<open>multisig-operations.js\<close> only calls the engine (\<^verbatim>\<open>multisig.create\<close>,
  \<^verbatim>\<open>buildCreateProposalTransaction\<close>, \<^verbatim>\<open>buildApproveTransaction\<close>,
  \<^verbatim>\<open>buildExecuteTransaction\<close> of \<^verbatim>\<open>@sqds/multisig\<close>); the engine itself is not among the
  sources. Its definitions below follow sections 3, 4.1 and 4.2 of the specification.
\<close>

text \<open>Modelled from the spec: the capability set of a member; the permission checks
  are missing from the sources.\<close>

datatype permission = Propose | Approve | Execute

text \<open>Modelled from the spec: a member, with the field names of the call site
  (\<^verbatim>\<open>pubkey\<close>, \<^verbatim>\<open>permissions.mask\<close>); the registry code is missing from the sources.\<close>

record member =
  pubkey :: publicKey
  permissions :: nat

text \<open>Modelled from the spec: the bit of each permission in the mask, as the comments
  of the call site give them (7 is Propose, Approve and Execute; 3 is Propose and Approve
  only); the decoding of the mask is missing from the sources.\<close>

fun bit_of :: "permission \<Rightarrow> nat" where
  "bit_of Propose = 1"
| "bit_of Approve = 2"
| "bit_of Execute = 4"

text \<open>Modelled from the spec: the membership test of a permission in a mask; missing
  from the sources.\<close>

definition holds :: "nat \<Rightarrow> permission \<Rightarrow> bool" where
  "holds m p = odd (m div bit_of p)"

text \<open>Modelled from the spec: the member registry of section 3; missing from the
  sources.\<close>

record registry =
  members :: "member list"
  threshold :: int

text \<open>Modelled from the spec: the failures of sections 4.1 and 4.2; the engine that
  raises them is missing from the sources.\<close>

datatype engine_error =
    InvalidThreshold
  | DuplicateMember
  | Unauthorized
  | ProposalNotActive
  | UnknownProposal
  | ProposalNotReady
  | SigningFailed error
  | SubmissionFailed error

text \<open>Modelled from the spec: the class \<open>ConfigurationError\<close> of section 7 (bad
  threshold, duplicate member); missing from the sources.\<close>

fun ConfigurationError :: "engine_error \<Rightarrow> bool" where
  "ConfigurationError InvalidThreshold = True"
| "ConfigurationError DuplicateMember = True"
| "ConfigurationError e = False"

text \<open>Modelled from the spec: \<open>create(members, threshold)\<close> of section 4.1, the
  function behind \<^verbatim>\<open>multisig.create\<close>, which is missing from the sources. It fails with
  \<open>InvalidThreshold\<close> if \<open>threshold < 1\<close> or \<open>threshold > len(members)\<close>, and with
  \<open>DuplicateMember\<close> if two entries share an identity.\<close>

definition create :: "member list \<Rightarrow> int \<Rightarrow> engine_error + registry" where
  "create ms t =
     (if t < 1 \<or> t > int (length ms) then Inl InvalidThreshold
      else if \<not> distinct (map pubkey ms) then Inl DuplicateMember
      else Inr \<lparr>members = ms, threshold = t\<rparr>)"

text \<open>Modelled from the spec: \<open>has_permission(identity, required_bit)\<close> of section 4.1,
  missing from the sources; an unknown identity gives false.\<close>

definition has_permission :: "registry \<Rightarrow> publicKey \<Rightarrow> permission \<Rightarrow> bool" where
  "has_permission reg identity p =
     (case find (\<lambda>m. pubkey m = identity) (members reg) of
        None \<Rightarrow> False
      | Some m \<Rightarrow> holds (permissions m) p)"

text \<open>Modelled from the spec: the states of a proposal (section 4.2); the proposal
  store is missing from the sources.\<close>

datatype proposal_state = Active | Approved | Rejected | Executed | Cancelled

text \<open>Modelled from the spec: the decision of a vote (section 4.2); missing from the
  sources.\<close>

datatype decision = VoteApprove | VoteReject

text \<open>Modelled from the spec: a proposal (section 3), with the receipt that execution
  stores; missing from the sources. The votes map an identity to its latest decision.\<close>

record proposal =
  index :: nat
  action_payload :: bytes
  creator :: publicKey
  state :: proposal_state
  votes :: "(publicKey \<times> decision) list"
  created_at :: nat
  time_lock :: nat
  receipt :: "string option"

text \<open>Modelled from the spec: the engine owns one registry and the proposals in the
  order of their indices (section 3); missing from the sources.\<close>

record engine =
  registry :: registry
  proposals :: "proposal list"

text \<open>Modelled from the spec: the update of the vote mapping, a later vote of the same
  member replacing the earlier one (section 3, invariant 1); missing from the sources.\<close>

fun upsert :: "'k \<Rightarrow> 'v \<Rightarrow> ('k \<times> 'v) list \<Rightarrow> ('k \<times> 'v) list" where
  "upsert k v [] = [(k, v)]"
| "upsert k v (kv # kvs) = (if fst kv = k then (k, v) # kvs else kv # upsert k v kvs)"

text \<open>Modelled from the spec: the count of Approve votes of a proposal (section 4.2);
  missing from the sources.\<close>

definition approvals :: "proposal \<Rightarrow> nat" where
  "approvals p = length (filter (\<lambda>kv. snd kv = VoteApprove) (votes p))"

text \<open>Modelled from the spec: \<open>create_proposal\<close> of section 4.2, the operation behind
  \<^verbatim>\<open>buildCreateProposalTransaction\<close>, missing from the sources: the next index, state
  Active, no votes.\<close>

definition create_proposal ::
  "engine \<Rightarrow> publicKey \<Rightarrow> bytes \<Rightarrow> nat \<Rightarrow> nat \<Rightarrow> engine_error + proposal \<times> engine" where
  "create_proposal eng who payload lock now =
     (if \<not> has_permission (registry eng) who Propose then Inl Unauthorized
      else let p = \<lparr>index = length (proposals eng), action_payload = payload, creator = who,
                    state = Active, votes = [], created_at = now, time_lock = lock,
                    receipt = None\<rparr>
           in Inr (p, eng\<lparr>proposals := proposals eng @ [p]\<rparr>))"

text \<open>Modelled from the spec: \<open>cast_vote\<close> of section 4.2 with its minimal policy, the
  operation behind \<^verbatim>\<open>buildApproveTransaction\<close>, missing from the sources: the vote is
  stored, and the proposal becomes Approved when the count of Approve votes has reached
  the threshold. The preconditions are checked in the order the specification lists
  them.\<close>

definition cast_vote ::
  "engine \<Rightarrow> nat \<Rightarrow> publicKey \<Rightarrow> decision \<Rightarrow> engine_error + engine" where
  "cast_vote eng i who d =
     (if length (proposals eng) \<le> i then Inl UnknownProposal
      else if state (proposals eng ! i) \<noteq> Active then Inl ProposalNotActive
      else if \<not> has_permission (registry eng) who Approve then Inl Unauthorized
      else let p = proposals eng ! i;
               p' = p\<lparr>votes := upsert who d (votes p)\<rparr>;
               p'' = (if threshold (registry eng) \<le> int (approvals p')
                      then p'\<lparr>state := Approved\<rparr> else p')
           in Inr (eng\<lparr>proposals := (proposals eng)[i := p'']\<rparr>))"

text \<open>Modelled from the spec: the answers of the ledger gateway to a submission
  (section 6); the gateway is an external collaborator.\<close>

datatype submission = Confirmation string | TransientError error | PermanentError error

text \<open>Modelled from the spec: the ledger gateway of section 6, missing from the
  sources.\<close>

record gateway =
  get_freshness_token :: string
  submit :: "bytes \<Rightarrow> submission"

text \<open>Modelled from the spec: \<open>execute_proposal\<close> of section 4.2, the operation behind
  \<^verbatim>\<open>buildExecuteTransaction\<close>, missing from the sources. The signer is the function
  \<open>sign\<close>, applied to the payload and the freshness token; the proposal becomes Executed
  only on confirmation.\<close>

definition execute_proposal ::
  "engine \<Rightarrow> nat \<Rightarrow> publicKey \<Rightarrow> nat \<Rightarrow> (bytes \<Rightarrow> string \<Rightarrow> error + bytes) \<Rightarrow> gateway
     \<Rightarrow> (engine_error + string) \<times> engine" where
  "execute_proposal eng i who now sign gw =
     (if length (proposals eng) \<le> i then (Inl UnknownProposal, eng)
      else if state (proposals eng ! i) \<noteq> Approved
              \<or> now < created_at (proposals eng ! i) + time_lock (proposals eng ! i)
        then (Inl ProposalNotReady, eng)
      else if \<not> has_permission (registry eng) who Execute then (Inl Unauthorized, eng)
      else case sign (action_payload (proposals eng ! i)) (get_freshness_token gw) of
             Inl e \<Rightarrow> (Inl (SigningFailed e), eng)
           | Inr signed_tx \<Rightarrow>
              (case submit gw signed_tx of
                 Confirmation c \<Rightarrow>
                   (Inr c, eng\<lparr>proposals := (proposals eng)
                                 [i := (proposals eng ! i)\<lparr>state := Executed, receipt := Some c\<rparr>]\<rparr>)
               | TransientError e \<Rightarrow> (Inl (SubmissionFailed e), eng)
               | PermanentError e \<Rightarrow> (Inl (SubmissionFailed e), eng)))"

text \<open>The members of the call site: three keys generated at random, here three distinct
  ones, with the masks 7, 7 and 3.\<close>

definition creator_key :: publicKey where
  "creator_key = PublicKey [1]"

definition member1_key :: publicKey where
  "member1_key = PublicKey [2]"

definition member2_key :: publicKey where
  "member2_key = PublicKey [3]"

definition demo_members :: "member list" where
  "demo_members =
     [\<lparr>pubkey = creator_key, permissions = 7\<rparr>,
      \<lparr>pubkey = member1_key, permissions = 7\<rparr>,
      \<lparr>pubkey = member2_key, permissions = 3\<rparr>]"

text \<open>The registry of the call site, and an engine over it that holds one proposal of
  the creator with the given votes, state and receipt.\<close>

definition demo_registry :: registry where
  "demo_registry = \<lparr>members = demo_members, threshold = 2\<rparr>"

definition demo_proposal ::
  "(publicKey \<times> decision) list \<Rightarrow> proposal_state \<Rightarrow> string option \<Rightarrow> proposal" where
  "demo_proposal vs st r =
     \<lparr>index = 0, action_payload = [], creator = creator_key, state = st, votes = vs,
      created_at = 0, time_lock = 0, receipt = r\<rparr>"

definition demo_engine ::
  "(publicKey \<times> decision) list \<Rightarrow> proposal_state \<Rightarrow> string option \<Rightarrow> engine" where
  "demo_engine vs st r = \<lparr>registry = demo_registry, proposals = [demo_proposal vs st r]\<rparr>"

text \<open>A signer that signs everything and a gateway that confirms everything, to evaluate
  the engine with.\<close>

definition stub_sign :: "bytes \<Rightarrow> string \<Rightarrow> error + bytes" where
  "stub_sign payload token = Inr payload"

definition stub_gateway :: gateway where
  "stub_gateway = \<lparr>get_freshness_token = ''token'', submit = (\<lambda>tx. Confirmation ''receipt'')\<rparr>"

section \<open>Properties of the signer classes\<close>

lemma signAll_loop_spec:
  "signAll_loop f s acc txs =
     (case sign_batch_spec f s txs of
        ((ts, None), s') \<Rightarrow> (Inr (acc @ ts), s')
      | ((ts, Some e), s') \<Rightarrow> (Inl e, s'))"
  by (induction txs arbitrary: s acc) (auto split: prod.splits sum.splits option.splits)

lemma Mock_signAll_state: "snd (Mock_signAllTransactions lib this txs) = this"
proof -
  have "snd (signAll_loop (\<lambda>s tx. (signTransaction lib s tx, s)) this acc txs) = this" for acc
    by (induction txs arbitrary: acc) (auto split: sum.splits)
  then show ?thesis by (simp add: Mock_signAllTransactions_def signAllTransactions_def)
qed

lemma invoke_consistent:
  "consistent lib c s \<Longrightarrow> consistent lib (lifecycle c x) (invoke lib s x)"
  by (cases x) (auto simp: consistent_def connect_def disconnect_def Let_def Mock_signAll_state)

lemma invoke_seedPhrase: "seedPhrase (invoke lib s x) = seedPhrase s"
  by (cases x) (auto simp: connect_def disconnect_def Let_def Mock_signAll_state)

lemma foldl_invoke_consistent:
  "consistent lib c s \<Longrightarrow> consistent lib (foldl lifecycle c h) (foldl (invoke lib) s h)"
  by (induction h arbitrary: c s) (auto simp: invoke_consistent)

lemma foldl_invoke_seedPhrase: "seedPhrase (foldl (invoke lib) s h) = seedPhrase s"
  by (induction h arbitrary: s) (auto simp: invoke_seedPhrase)

lemma instance_after_consistent:
  "consistent lib (Connected h) (instance_after lib arg h)"
  unfolding Connected_def instance_after_def
  by (rule foldl_invoke_consistent) (simp add: consistent_def new_MockHSMSigner_def)

lemma instance_after_seedPhrase:
  "seedPhrase (instance_after lib arg h) = seedPhrase (new_MockHSMSigner arg)"
  by (simp add: instance_after_def foldl_invoke_seedPhrase)

text \<open>The seed buffer handed to \<^verbatim>\<open>Keypair.fromSeed\<close> always has 32 bytes.\<close>

lemma utf8_fit_length: "length (utf8_fit room bs) \<le> room"
  by (induction room bs rule: utf8_fit.induct) (auto simp: utf8_len_def)

lemma seed_of_length: "length (seed_of phrase) = 32"
  using utf8_fit_length [of 32 "map of_char phrase"]
  by (simp add: seed_of_def Buffer_write_def Buffer_alloc_def Let_def)

text \<open>
  A phrase longer than the buffer is cut at 32 bytes, and a two-byte character that
  would end at byte 33 is not written at all.
\<close>

lemma seed_of_truncates:
  "seed_of ''0123456789abcdefghijklmnopqrstuvwxyz''
     = map of_char ''0123456789abcdefghijklmnopqrstuv''"
  by (simp add: seed_of_def Buffer_write_def Buffer_alloc_def utf8_len_def)

lemma seed_of_whole_characters:
  "seed_of (''0123456789abcdefghijklmnopqrstu'' @ [CHR 0xC3, CHR 0xA9])
     = map of_char ''0123456789abcdefghijklmnopqrstu'' @ [0]"
  by (simp add: seed_of_def Buffer_write_def Buffer_alloc_def utf8_len_def)

text \<open>
  C2. The batch method signs the transactions one after the other, in order, and stops
  at the first failure, exactly where the specification's \<open>sign_batch\<close> stops and with the
  same effect on the signer; but what the caller gets on a failure is the thrown error
  alone: the results signed so far are not returned. When no signature fails, all signed
  transactions are returned in order.
\<close>

theorem signAllTransactions_forgets_partial:
  "signAllTransactions signTx this txs =
     (forget_partial (fst (sign_batch_spec signTx this txs)),
      snd (sign_batch_spec signTx this txs))"
  by (simp add: signAllTransactions_def signAll_loop_spec split: prod.splits option.splits)

text \<open>
  C2 as stated fails: a connected development signer is given three transactions of
  which the second has no recent block hash, so that \<^verbatim>\<open>partialSign\<close> throws on it. The
  specification's result holds the first signed transaction next to the error; the
  caller of the method receives the error only.
\<close>

theorem signAllTransactions_partial_counterexample:
  "received (fst (Mock_signAllTransactions stub_web3
       (fst (snd (connect stub_web3 (new_MockHSMSigner None))))
       [tx_signable (PublicKey (map of_char ''test-seed'' @ replicate 23 0)),
        tx_transfer,
        tx_signable (PublicKey (map of_char ''test-seed'' @ replicate 23 0))]))
     = ([], Some (Error ''Transaction recentBlockhash required'')) \<and>
   fst (sign_batch_spec (\<lambda>s tx. (signTransaction stub_web3 s tx, s))
       (fst (snd (connect stub_web3 (new_MockHSMSigner None))))
       [tx_signable (PublicKey (map of_char ''test-seed'' @ replicate 23 0)),
        tx_transfer,
        tx_signable (PublicKey (map of_char ''test-seed'' @ replicate 23 0))])
     = ([(tx_signable (PublicKey (map of_char ''test-seed'' @ replicate 23 0)))
           \<lparr>signatures :=
              [(PublicKey (map of_char ''test-seed'' @ replicate 23 0),
                map of_char ''test-seed'' @ replicate 23 0)]\<rparr>],
        Some (Error ''Transaction recentBlockhash required''))"
  by (simp add: Mock_signAllTransactions_def signAllTransactions_def signTransaction_def
      connect_def new_MockHSMSigner_def stub_web3_def tx_transfer_def tx_signable_def Let_def
      seed_of_def Buffer_write_def Buffer_alloc_def utf8_len_def)

text \<open>
  C3. An instance of the development backend that is not connected (\<^verbatim>\<open>connect\<close> never
  called, or \<^verbatim>\<open>disconnect\<close> called since the last \<^verbatim>\<open>connect\<close>) throws
  \<^verbatim>\<open>Mock HSM not connected\<close> from \<^verbatim>\<open>signTransaction\<close>, for every transaction and
  whatever \<^verbatim>\<open>partialSign\<close> would do: no signed transaction is produced.
\<close>

theorem signTransaction_not_connected:
  "\<not> Connected history \<Longrightarrow>
   signTransaction lib (instance_after lib arg history) tx = Inl (Error ''Mock HSM not connected'')"
  using instance_after_consistent [of lib history arg]
  by (simp add: consistent_def signTransaction_def)

theorem signTransaction_not_connected_witness:
  "\<not> Connected [Connect, SignTransaction tx_transfer, Disconnect] \<and>
   signTransaction stub_web3
     (instance_after stub_web3 (Some ''my-secure-seed'')
        [Connect, SignTransaction tx_transfer, Disconnect])
     tx_transfer = Inl (Error ''Mock HSM not connected'')"
proof -
  have h: "\<not> Connected [Connect, SignTransaction tx_transfer, Disconnect]"
    by (simp add: Connected_def)
  show ?thesis using h signTransaction_not_connected [OF h] by simp
qed

text \<open>
  C5, as the code has it. \<^verbatim>\<open>connect\<close> establishes the session and resolves to
  \<^verbatim>\<open>undefined\<close>; the identity is stored in the instance, where the \<^verbatim>\<open>publicKey\<close>
  accessor reads it, and it is the public key of the key pair that \<^verbatim>\<open>signTransaction\<close>
  then signs with.
\<close>

theorem connect_sets_identity:
  "fst (connect lib this) = Inr None \<and>
   publicKey (fst (snd (connect lib this)))
     = Inr (kp_publicKey (fromSeed lib (seed_of (seedPhrase this)))) \<and>
   signTransaction lib (fst (snd (connect lib this))) tx
     = partialSign lib (fromSeed lib (seed_of (seedPhrase this))) tx"
  by (simp add: connect_def Let_def publicKey_def signTransaction_def)

text \<open>
  C5 as stated fails: the value \<^verbatim>\<open>connect\<close> resolves to is not the identity that the
  accessor shows afterwards.
\<close>

theorem connect_return_value_counterexample:
  "fst (connect stub_web3 (new_MockHSMSigner (Some ''my-secure-seed'')))
     \<noteq> Inr (Some (PublicKey (map of_char ''my-secure-seed'' @ replicate 18 0))) \<and>
   publicKey (fst (snd (connect stub_web3 (new_MockHSMSigner (Some ''my-secure-seed'')))))
     = Inr (PublicKey (map of_char ''my-secure-seed'' @ replicate 18 0))"
  by (simp add: connect_def new_MockHSMSigner_def stub_web3_def publicKey_def Let_def
      seed_of_def Buffer_write_def Buffer_alloc_def utf8_len_def)

text \<open>
  C6. \<^verbatim>\<open>disconnect\<close> never throws, the instance after two consecutive calls is the
  instance after one, and on an instance that is not connected it changes no field (it
  still writes its console entry). The \<^verbatim>\<open>disconnect\<close> of the interface class changes
  nothing at all.
\<close>

theorem disconnect_idempotent:
  "fst (disconnect this) = Inr () \<and>
   fst (disconnect (fst (snd (disconnect this)))) = Inr () \<and>
   fst (snd (disconnect (fst (snd (disconnect this))))) = fst (snd (disconnect this)) \<and>
   (\<not> Connected history \<longrightarrow>
      fst (snd (disconnect (instance_after lib arg history))) = instance_after lib arg history) \<and>
   HSMSigner_disconnect base = (Inr (), base)"
  using instance_after_consistent [of lib history arg]
  by (auto simp: disconnect_def consistent_def HSMSigner_disconnect_def)

theorem disconnect_idempotent_witness:
  "\<not> Connected [Connect, Disconnect] \<and>
   fst (snd (disconnect (instance_after stub_web3 None [Connect, Disconnect])))
     = instance_after stub_web3 None [Connect, Disconnect]"
proof -
  have h: "\<not> Connected [Connect, Disconnect]"
    by (simp add: Connected_def)
  show ?thesis
    using h disconnect_idempotent [where this = "new_MockHSMSigner None"
        and history = "[Connect, Disconnect]" and lib = stub_web3 and arg = None
        and base = new_HSMSigner]
    by simp
qed

text \<open>Of ASCII characters, each one byte long, as many are written as there is room.\<close>

lemma utf8_fit_ascii: "list_all (\<lambda>b. b < 0x80) bs \<Longrightarrow> utf8_fit room bs = take room bs"
proof (induction bs arbitrary: room)
  case Nil
  then show ?case by simp
next
  case (Cons b bs)
  then have len: "utf8_len b = 1" and rest: "list_all (\<lambda>b. b < 0x80) bs"
    by (simp_all add: utf8_len_def)
  show ?case
  proof (cases room)
    case 0
    then show ?thesis by (simp add: len)
  next
    case (Suc r)
    then show ?thesis using Cons.IH [OF rest, of r] by (simp add: len)
  qed
qed

text \<open>
  C7. The identity after \<^verbatim>\<open>connect\<close> is the public key of the key pair that
  \<^verbatim>\<open>Keypair.fromSeed\<close> derives from the 32-byte seed, and the seed is built from the seed
  phrase alone: the whole characters of the phrase that fit, then zero bytes; for a
  phrase of ASCII characters, its bytes cut at 32 or filled up to 32. So two instances
  with the same seed phrase, whatever their other fields, expose the same identity after
  \<^verbatim>\<open>connect\<close>, and connecting an instance a second time gives the identity of the first
  time.
\<close>

theorem connect_deterministic:
  "seedPhrase a = seedPhrase b \<Longrightarrow>
   publicKey (invoke lib a Connect) = publicKey (invoke lib b Connect) \<and>
   publicKey (invoke lib (invoke lib a Connect) Connect) = publicKey (invoke lib a Connect) \<and>
   publicKey (invoke lib a Connect) =
     Inr (kp_publicKey (fromSeed lib
       (utf8_fit 32 (map of_char (seedPhrase a))
          @ replicate (32 - length (utf8_fit 32 (map of_char (seedPhrase a)))) 0))) \<and>
   (list_all (\<lambda>c. (of_char c :: 8 word) < 0x80) (seedPhrase a) \<longrightarrow>
      publicKey (invoke lib a Connect) =
        Inr (kp_publicKey (fromSeed lib (take 32 (map of_char (seedPhrase a) @ replicate 32 0)))))"
proof -
  assume same: "seedPhrase a = seedPhrase b"
  let ?fit = "utf8_fit 32 (map of_char (seedPhrase a))"
  have key: "publicKey (invoke lib x Connect)
      = Inr (kp_publicKey (fromSeed lib (seed_of (seedPhrase x))))" for x
    by (simp add: connect_def Let_def publicKey_def)
  have again: "seedPhrase (invoke lib a Connect) = seedPhrase a"
    by (simp add: connect_def Let_def)
  have seed: "seed_of (seedPhrase a) = ?fit @ replicate (32 - length ?fit) 0"
    by (simp add: seed_of_def Buffer_write_def Buffer_alloc_def Let_def)
  have "publicKey (invoke lib a Connect) = publicKey (invoke lib b Connect)"
    by (simp only: key same)
  moreover have "publicKey (invoke lib (invoke lib a Connect) Connect)
      = publicKey (invoke lib a Connect)"
    by (simp only: key again)
  moreover have "publicKey (invoke lib a Connect) =
     Inr (kp_publicKey (fromSeed lib (?fit @ replicate (32 - length ?fit) 0)))"
    by (simp only: key seed)
  moreover have "list_all (\<lambda>c. (of_char c :: 8 word) < 0x80) (seedPhrase a) \<longrightarrow>
      publicKey (invoke lib a Connect) =
        Inr (kp_publicKey (fromSeed lib (take 32 (map of_char (seedPhrase a) @ replicate 32 0))))"
  proof
    assume "list_all (\<lambda>c. (of_char c :: 8 word) < 0x80) (seedPhrase a)"
    then have "list_all (\<lambda>b. b < 0x80) (map of_char (seedPhrase a) :: 8 word list)"
      by (simp add: list_all_iff)
    then have "?fit = take 32 (map of_char (seedPhrase a))"
      by (rule utf8_fit_ascii)
    then have "seed_of (seedPhrase a) = take 32 (map of_char (seedPhrase a) @ replicate 32 0)"
      by (simp add: seed min_def)
    then show "publicKey (invoke lib a Connect) =
        Inr (kp_publicKey (fromSeed lib (take 32 (map of_char (seedPhrase a) @ replicate 32 0))))"
      by (simp only: key)
  qed
  ultimately show ?thesis by blast
qed

text \<open>
  The instance of C7 at a fresh signer and at one that is already connected and has
  signed: both get the identity made of the bytes of the phrase and 18 zero bytes.
\<close>

theorem connect_deterministic_witness:
  "seedPhrase (new_MockHSMSigner (Some ''my-secure-seed''))
     = seedPhrase (instance_after stub_web3 (Some ''my-secure-seed'')
         [Connect, SignTransaction tx_transfer]) \<and>
   list_all (\<lambda>c. (of_char c :: 8 word) < 0x80)
     (seedPhrase (new_MockHSMSigner (Some ''my-secure-seed''))) \<and>
   keypair (new_MockHSMSigner (Some ''my-secure-seed''))
     \<noteq> keypair (instance_after stub_web3 (Some ''my-secure-seed'')
         [Connect, SignTransaction tx_transfer]) \<and>
   publicKey (invoke stub_web3 (new_MockHSMSigner (Some ''my-secure-seed'')) Connect)
     = publicKey (invoke stub_web3
         (instance_after stub_web3 (Some ''my-secure-seed'')
            [Connect, SignTransaction tx_transfer]) Connect) \<and>
   publicKey (invoke stub_web3 (new_MockHSMSigner (Some ''my-secure-seed'')) Connect)
     = Inr (PublicKey (map of_char ''my-secure-seed'' @ replicate 18 0))"
proof -
  have h: "seedPhrase (new_MockHSMSigner (Some ''my-secure-seed''))
     = seedPhrase (instance_after stub_web3 (Some ''my-secure-seed'')
         [Connect, SignTransaction tx_transfer])"
    by (simp add: instance_after_seedPhrase)
  have ascii: "list_all (\<lambda>c. (of_char c :: 8 word) < 0x80)
     (seedPhrase (new_MockHSMSigner (Some ''my-secure-seed'')))"
    by (simp add: new_MockHSMSigner_def)
  have differ: "keypair (new_MockHSMSigner (Some ''my-secure-seed''))
     \<noteq> keypair (instance_after stub_web3 (Some ''my-secure-seed'')
         [Connect, SignTransaction tx_transfer])"
    by (simp add: instance_after_def new_MockHSMSigner_def connect_def Let_def)
  have bytes: "take 32 (map of_char (seedPhrase (new_MockHSMSigner (Some ''my-secure-seed'')))
        @ replicate 32 (0 :: 8 word))
      = map of_char ''my-secure-seed'' @ replicate 18 0"
    by (simp add: new_MockHSMSigner_def)
  have lib: "kp_publicKey (fromSeed stub_web3 seed) = PublicKey seed" for seed
    by (simp add: stub_web3_def)
  from connect_deterministic [OF h, of stub_web3] ascii
  have same: "publicKey (invoke stub_web3 (new_MockHSMSigner (Some ''my-secure-seed'')) Connect)
       = publicKey (invoke stub_web3
           (instance_after stub_web3 (Some ''my-secure-seed'')
              [Connect, SignTransaction tx_transfer]) Connect)"
    and derived: "publicKey (invoke stub_web3 (new_MockHSMSigner (Some ''my-secure-seed'')) Connect)
       = Inr (kp_publicKey (fromSeed stub_web3
           (take 32 (map of_char (seedPhrase (new_MockHSMSigner (Some ''my-secure-seed'')))
              @ replicate 32 0))))"
    by blast+
  have identity:
    "publicKey (invoke stub_web3 (new_MockHSMSigner (Some ''my-secure-seed'')) Connect)
       = Inr (PublicKey (map of_char ''my-secure-seed'' @ replicate 18 0))"
    using derived by (simp only: bytes lib)
  show ?thesis
    by (intro conjI h ascii differ same identity)
qed

text \<open>Another seed phrase gives another seed, and with this library another identity.\<close>

lemma connect_depends_on_seed_phrase:
  "publicKey (invoke stub_web3 (new_MockHSMSigner (Some ''my-secure-seed'')) Connect)
     \<noteq> publicKey (invoke stub_web3 (new_MockHSMSigner None) Connect)"
  by (simp add: connect_def new_MockHSMSigner_def stub_web3_def publicKey_def Let_def
      seed_of_def Buffer_write_def Buffer_alloc_def utf8_len_def)

text \<open>
  C10. Reading \<^verbatim>\<open>publicKey\<close> on an instance that is not connected throws
  \<^verbatim>\<open>HSM not initialized. Call connect() first.\<close>; on a connected instance it returns the
  identity derived from the seed. The identity is observable exactly while a session is
  established.
\<close>

theorem publicKey_only_while_connected:
  "publicKey (instance_after lib arg history) =
     (if Connected history
      then Inr (kp_publicKey (fromSeed lib (seed_of (seedPhrase (new_MockHSMSigner arg)))))
      else Inl (Error ''HSM not initialized. Call connect() first.''))"
  using instance_after_consistent [of lib history arg] instance_after_seedPhrase [of lib arg history]
  by (simp add: consistent_def publicKey_def)

theorem publicKey_only_while_connected_witness:
  "publicKey (instance_after stub_web3 None []) =
     Inl (Error ''HSM not initialized. Call connect() first.'') \<and>
   publicKey (instance_after stub_web3 None [Connect, ReadPublicKey, Disconnect]) =
     Inl (Error ''HSM not initialized. Call connect() first.'')"
  using publicKey_only_while_connected [of stub_web3 None "[]"]
    publicKey_only_while_connected [of stub_web3 None "[Connect, ReadPublicKey, Disconnect]"]
  by (simp add: Connected_def)

section \<open>The transfer flow releases the signer\<close>

text \<open>When no connection can be made, \<^verbatim>\<open>main\<close> throws before a signer exists.\<close>

lemma main_without_connection:
  "select_connection lib env (or_default (SOLANA_ENV env) ''localnet'') = Inl e \<Longrightarrow>
   main lib env = (Inl e, None, [])"
  by (simp add: main_def Let_def)

text \<open>
  A run on the local network in which the submission fails: the error reaches the
  \<^verbatim>\<open>catch\<close> clause and \<^verbatim>\<open>disconnect\<close> runs after it.
\<close>

lemma main_submission_fails:
  "main stub_web3 \<lparr>SOLANA_ENV = None, RPC_ENDPOINT = None\<rparr> =
    (Inr (),
     Some \<lparr>priv_publicKey = None, seedPhrase = ''my-secure-seed'', keypair = None\<rparr>,
     [Log ''Connected to localnet'',
      Warn ''Using MockHSMSigner - FOR DEVELOPMENT ONLY!'',
      Log ''Mock HSM connected'',
      Log ''Public key: base58'',
      Log ''Requesting airdrop for HSM wallet...'',
      Log ''Airdrop successful!'',
      Log ''Signing transaction with HSM...'',
      Log ''Sending transaction...'',
      Err ''Transaction failed: Blockhash not found'',
      Log ''Mock HSM disconnected''])"
  by (simp add: main_def stub_web3_def stub_connection_def or_default_def
      select_connection_def connect_def new_MockHSMSigner_def try_body_def fund_wallet_def
      publicKey_def transfer_steps_def signTransaction_def disconnect_def Let_def)

text \<open>
  C8. In every run of \<^verbatim>\<open>main\<close> that gets as far as \<^verbatim>\<open>connect\<close> (the environment names
  a network and the connection object is made), whatever the airdrop, the block hash
  request, the signature and the submission do, \<^verbatim>\<open>disconnect\<close> is the last thing that
  happens: its console entry ends the output after that of \<^verbatim>\<open>connect\<close>, the signer is
  left with no key pair and no identity, and \<^verbatim>\<open>main\<close> itself does not throw.
\<close>

theorem main_always_disconnects:
  "select_connection lib env (or_default (SOLANA_ENV env) ''localnet'') = Inr conn \<Longrightarrow>
   \<exists>s out. main lib env = (Inr (), Some s, out @ [Log ''Mock HSM disconnected'']) \<and>
     keypair s = None \<and> priv_publicKey s = None \<and>
     Log ''Mock HSM connected'' \<in> set out"
  by (auto simp: main_def Let_def connect_def disconnect_def split: prod.splits sum.splits)

theorem main_always_disconnects_witness:
  "select_connection stub_web3 \<lparr>SOLANA_ENV = None, RPC_ENDPOINT = None\<rparr>
      (or_default (SOLANA_ENV \<lparr>SOLANA_ENV = None, RPC_ENDPOINT = None\<rparr>) ''localnet'')
     = Inr stub_connection \<and>
   (\<exists>s out. main stub_web3 \<lparr>SOLANA_ENV = None, RPC_ENDPOINT = None\<rparr>
       = (Inr (), Some s, out @ [Log ''Mock HSM disconnected'']) \<and>
     keypair s = None \<and> priv_publicKey s = None \<and>
     Log ''Mock HSM connected'' \<in> set out)"
proof -
  have h: "select_connection stub_web3 \<lparr>SOLANA_ENV = None, RPC_ENDPOINT = None\<rparr>
      (or_default (SOLANA_ENV \<lparr>SOLANA_ENV = None, RPC_ENDPOINT = None\<rparr>) ''localnet'')
     = Inr stub_connection"
    by (simp add: select_connection_def or_default_def stub_web3_def)
  show ?thesis using h main_always_disconnects [OF h] by blast
qed

section \<open>Properties of the authorization engine\<close>

lemma cast_vote_state:
  "cast_vote eng i who d = Inr eng' \<Longrightarrow>
   i < length (proposals eng') \<and> registry eng' = registry eng \<and>
   (state (proposals eng' ! i) = Approved
      \<longleftrightarrow> threshold (registry eng') \<le> int (approvals (proposals eng' ! i)))"
  by (auto simp: cast_vote_def approvals_def Let_def split: if_splits)

lemma execute_only_Approved:
  "fst (execute_proposal eng i who now sign gw) = Inr c \<Longrightarrow>
   i < length (proposals eng) \<and> state (proposals eng ! i) = Approved"
  by (auto simp: execute_proposal_def split: if_splits sum.splits submission.splits)

lemma demo_permissions:
  "has_permission \<lparr>members = demo_members, threshold = 2\<rparr> creator_key Propose"
  "has_permission \<lparr>members = demo_members, threshold = 2\<rparr> creator_key Execute"
  "has_permission \<lparr>members = demo_members, threshold = 2\<rparr> member1_key Approve"
  "has_permission \<lparr>members = demo_members, threshold = 2\<rparr> member2_key Approve"
  "\<not> has_permission \<lparr>members = demo_members, threshold = 2\<rparr> member2_key Execute"
  by (simp_all add: has_permission_def demo_members_def holds_def
      creator_key_def member1_key_def member2_key_def)

lemma demo_create: "create demo_members 2 = Inr \<lparr>members = demo_members, threshold = 2\<rparr>"
  by (simp add: create_def demo_members_def creator_key_def member1_key_def member2_key_def)

lemma map_of_upsert: "map_of (upsert k v kvs) k = Some v"
  by (induction kvs) auto

lemma demo_registry_permissions:
  "has_permission demo_registry creator_key Propose"
  "has_permission demo_registry creator_key Execute"
  "has_permission demo_registry member1_key Approve"
  "has_permission demo_registry member2_key Approve"
  using demo_permissions by (simp_all add: demo_registry_def)

text \<open>
  C1. In an engine whose registry has three members and threshold 2, a vote is accepted
  on an Active proposal only and is recorded for its member; after it the proposal is
  Approved if and only if it holds at least two Approve votes, and Active if and only if
  it holds fewer (Reject votes do not count). Execution succeeds on an Approved proposal
  only; on a proposal in any other state it fails with \<open>ProposalNotReady\<close> and changes
  nothing, whatever the executor, the signer and the gateway. On a new proposal: it is
  Active; one approval leaves it Active, as does a repeated approval of the same member
  or a rejection by a second member; the approval of a second member makes it Approved,
  after which it takes no further votes and a permitted executor can execute it once the
  time lock has passed.
\<close>

theorem approved_at_threshold:
  assumes reg: "create ms 2 = Inr reg" and len: "length ms = 3"
    and eng: "registry eng = reg"
    and cr: "has_permission reg cr Propose"
    and v1: "has_permission reg v1 Approve"
    and v2: "has_permission reg v2 Approve"
    and ne: "v1 \<noteq> v2"
  shows
   "(cast_vote eng i voter d = Inr eng' \<longrightarrow>
       state (proposals eng ! i) = Active \<and>
       map_of (votes (proposals eng' ! i)) voter = Some d \<and>
       (state (proposals eng' ! i) = Approved)
         = (2 \<le> length (filter (\<lambda>kv. snd kv = VoteApprove) (votes (proposals eng' ! i)))) \<and>
       (state (proposals eng' ! i) = Active)
         = (length (filter (\<lambda>kv. snd kv = VoteApprove) (votes (proposals eng' ! i))) < 2)) \<and>
    (fst (execute_proposal eng j who t sign gw) = Inr c \<longrightarrow>
       j < length (proposals eng) \<and> state (proposals eng ! j) = Approved) \<and>
    (j < length (proposals eng) \<and> state (proposals eng ! j) \<noteq> Approved \<longrightarrow>
       execute_proposal eng j who t sign gw = (Inl ProposalNotReady, eng)) \<and>
    (\<exists>p eng1 eng2 engR eng3.
       create_proposal \<lparr>registry = reg, proposals = []\<rparr> cr payload lock now = Inr (p, eng1) \<and>
       index p = 0 \<and> state p = Active \<and>
       execute_proposal eng1 0 who t sign gw = (Inl ProposalNotReady, eng1) \<and>
       cast_vote eng1 0 v1 VoteApprove = Inr eng2 \<and>
       state (proposals eng2 ! 0) = Active \<and>
       execute_proposal eng2 0 who t sign gw = (Inl ProposalNotReady, eng2) \<and>
       cast_vote eng2 0 v1 VoteApprove = Inr eng2 \<and>
       cast_vote eng2 0 v2 VoteReject = Inr engR \<and>
       state (proposals engR ! 0) = Active \<and>
       execute_proposal engR 0 who t sign gw = (Inl ProposalNotReady, engR) \<and>
       cast_vote eng2 0 v2 VoteApprove = Inr eng3 \<and>
       state (proposals eng3 ! 0) = Approved \<and>
       cast_vote eng3 0 voter d = Inl ProposalNotActive \<and>
       (has_permission reg who Execute \<and> now + lock \<le> t
          \<and> sign payload (get_freshness_token gw) = Inr stx \<and> submit gw stx = Confirmation c
        \<longrightarrow> (\<exists>eng4. execute_proposal eng3 0 who t sign gw = (Inr c, eng4)
                 \<and> state (proposals eng4 ! 0) = Executed)))"
proof -
  have th: "threshold reg = 2"
    using reg by (auto simp: create_def split: if_splits)
  have vote: "cast_vote eng i voter d = Inr eng' \<longrightarrow>
       state (proposals eng ! i) = Active \<and>
       map_of (votes (proposals eng' ! i)) voter = Some d \<and>
       (state (proposals eng' ! i) = Approved)
         = (2 \<le> length (filter (\<lambda>kv. snd kv = VoteApprove) (votes (proposals eng' ! i)))) \<and>
       (state (proposals eng' ! i) = Active)
         = (length (filter (\<lambda>kv. snd kv = VoteApprove) (votes (proposals eng' ! i))) < 2)"
    using th eng
    by (auto simp: cast_vote_def approvals_def Let_def map_of_upsert split: if_splits)
  have only: "fst (execute_proposal eng j who t sign gw) = Inr c \<longrightarrow>
       j < length (proposals eng) \<and> state (proposals eng ! j) = Approved"
    by (auto simp: execute_proposal_def split: if_splits sum.splits submission.splits)
  have refused: "j < length (proposals eng) \<and> state (proposals eng ! j) \<noteq> Approved \<longrightarrow>
       execute_proposal eng j who t sign gw = (Inl ProposalNotReady, eng)"
    by (simp add: execute_proposal_def)
  have scenario: "\<exists>p eng1 eng2 engR eng3.
       create_proposal \<lparr>registry = reg, proposals = []\<rparr> cr payload lock now = Inr (p, eng1) \<and>
       index p = 0 \<and> state p = Active \<and>
       execute_proposal eng1 0 who t sign gw = (Inl ProposalNotReady, eng1) \<and>
       cast_vote eng1 0 v1 VoteApprove = Inr eng2 \<and>
       state (proposals eng2 ! 0) = Active \<and>
       execute_proposal eng2 0 who t sign gw = (Inl ProposalNotReady, eng2) \<and>
       cast_vote eng2 0 v1 VoteApprove = Inr eng2 \<and>
       cast_vote eng2 0 v2 VoteReject = Inr engR \<and>
       state (proposals engR ! 0) = Active \<and>
       execute_proposal engR 0 who t sign gw = (Inl ProposalNotReady, engR) \<and>
       cast_vote eng2 0 v2 VoteApprove = Inr eng3 \<and>
       state (proposals eng3 ! 0) = Approved \<and>
       cast_vote eng3 0 voter d = Inl ProposalNotActive \<and>
       (has_permission reg who Execute \<and> now + lock \<le> t
          \<and> sign payload (get_freshness_token gw) = Inr stx \<and> submit gw stx = Confirmation c
        \<longrightarrow> (\<exists>eng4. execute_proposal eng3 0 who t sign gw = (Inr c, eng4)
                 \<and> state (proposals eng4 ! 0) = Executed))"
    using cr v1 v2 ne th
    by (auto simp: create_proposal_def cast_vote_def execute_proposal_def approvals_def Let_def)
  from vote only refused scenario show ?thesis by blast
qed

text \<open>
  The instance of C1 at the registry of the call site, on engines that hold the
  creator's proposal. With the approval of member 1 alone, which is all that
  \<^verbatim>\<open>multisig-operations.js\<close> asks for before it executes, the creator's execution is
  answered \<open>ProposalNotReady\<close>; a rejection by member 2 changes nothing to that; the
  approval of member 2 makes the proposal Approved and the execution succeed.
\<close>

theorem approved_at_threshold_witness:
  "create demo_members 2 = Inr demo_registry \<and>
   length demo_members = 3 \<and>
   registry (demo_engine [(member1_key, VoteApprove)] Active None) = demo_registry \<and>
   registry (demo_engine [(member1_key, VoteApprove), (member2_key, VoteApprove)] Approved None)
     = demo_registry \<and>
   has_permission demo_registry creator_key Propose \<and>
   has_permission demo_registry member1_key Approve \<and>
   has_permission demo_registry member2_key Approve \<and>
   member1_key \<noteq> member2_key \<and>
   cast_vote (demo_engine [(member1_key, VoteApprove)] Active None) 0 member2_key VoteReject
     = Inr (demo_engine [(member1_key, VoteApprove), (member2_key, VoteReject)] Active None) \<and>
   state (proposals
       (demo_engine [(member1_key, VoteApprove), (member2_key, VoteReject)] Active None) ! 0)
     \<noteq> Approved \<and>
   cast_vote (demo_engine [(member1_key, VoteApprove)] Active None) 0 member2_key VoteApprove
     = Inr (demo_engine [(member1_key, VoteApprove), (member2_key, VoteApprove)] Approved None) \<and>
   2 \<le> length (filter (\<lambda>kv. snd kv = VoteApprove) (votes (proposals
       (demo_engine [(member1_key, VoteApprove), (member2_key, VoteApprove)] Approved None) ! 0))) \<and>
   (0::nat) < length (proposals (demo_engine [(member1_key, VoteApprove)] Active None)) \<and>
   state (proposals (demo_engine [(member1_key, VoteApprove)] Active None) ! 0) \<noteq> Approved \<and>
   execute_proposal (demo_engine [(member1_key, VoteApprove)] Active None) 0 creator_key 0
       stub_sign stub_gateway
     = (Inl ProposalNotReady, demo_engine [(member1_key, VoteApprove)] Active None) \<and>
   fst (execute_proposal
       (demo_engine [(member1_key, VoteApprove), (member2_key, VoteApprove)] Approved None)
       0 creator_key 0 stub_sign stub_gateway) = Inr ''receipt'' \<and>
   state (proposals
       (demo_engine [(member1_key, VoteApprove), (member2_key, VoteApprove)] Approved None) ! 0)
     = Approved"
proof -
  let ?E1 = "demo_engine [(member1_key, VoteApprove)] Active None"
  let ?ER = "demo_engine [(member1_key, VoteApprove), (member2_key, VoteReject)] Active None"
  let ?EA = "demo_engine [(member1_key, VoteApprove), (member2_key, VoteApprove)] Approved None"
  have c: "create demo_members 2 = Inr demo_registry"
    using demo_create by (simp add: demo_registry_def)
  have l: "length demo_members = 3"
    by (simp add: demo_members_def)
  have r1: "registry ?E1 = demo_registry" and rA: "registry ?EA = demo_registry"
    by (simp_all add: demo_engine_def)
  have ne: "member1_key \<noteq> member2_key"
    by (simp add: member1_key_def member2_key_def)
  note p = demo_registry_permissions
  have reject: "cast_vote ?E1 0 member2_key VoteReject = Inr ?ER"
    using p(4) ne
    by (simp add: cast_vote_def demo_engine_def demo_proposal_def approvals_def
        demo_registry_def Let_def)
  have approve: "cast_vote ?E1 0 member2_key VoteApprove = Inr ?EA"
    using p(4) ne
    by (simp add: cast_vote_def demo_engine_def demo_proposal_def approvals_def
        demo_registry_def Let_def)
  have len1: "(0::nat) < length (proposals ?E1)"
    by (simp add: demo_engine_def)
  have executed: "fst (execute_proposal ?EA 0 creator_key 0 stub_sign stub_gateway)
      = Inr ''receipt''"
    using p(2)
    by (simp add: execute_proposal_def demo_engine_def demo_proposal_def stub_sign_def
        stub_gateway_def)
  note at_E1 = approved_at_threshold [OF c l r1 p(1) p(3) p(4) ne,
      where i = 0 and j = 0 and who = creator_key and t = 0 and sign = stub_sign
        and gw = stub_gateway]
  note at_EA = approved_at_threshold [OF c l rA p(1) p(3) p(4) ne,
      where j = 0 and who = creator_key and t = 0 and sign = stub_sign
        and gw = stub_gateway and c = "''receipt''"]
  from at_E1 [where voter = member2_key and d = VoteReject and eng' = ?ER] reject
  have active1: "state (proposals ?E1 ! 0) = Active"
    and few: "(state (proposals ?ER ! 0) = Approved)
        = (2 \<le> length (filter (\<lambda>kv. snd kv = VoteApprove) (votes (proposals ?ER ! 0))))"
    by blast+
  have "\<not> 2 \<le> length (filter (\<lambda>kv. snd kv = VoteApprove) (votes (proposals ?ER ! 0)))"
    by (simp add: demo_engine_def demo_proposal_def)
  with few have notR: "state (proposals ?ER ! 0) \<noteq> Approved"
    by simp
  from at_E1 [where voter = member2_key and d = VoteApprove and eng' = ?EA] approve
  have iffA: "(state (proposals ?EA ! 0) = Approved)
        = (2 \<le> length (filter (\<lambda>kv. snd kv = VoteApprove) (votes (proposals ?EA ! 0))))"
    by blast
  from at_EA executed have stateA: "state (proposals ?EA ! 0) = Approved"
    by blast
  with iffA have two: "2 \<le> length (filter (\<lambda>kv. snd kv = VoteApprove) (votes (proposals ?EA ! 0)))"
    by simp
  from active1 have not1: "state (proposals ?E1 ! 0) \<noteq> Approved"
    by simp
  from at_E1 len1 not1
  have refused: "execute_proposal ?E1 0 creator_key 0 stub_sign stub_gateway
      = (Inl ProposalNotReady, ?E1)"
    by blast
  show ?thesis
    by (intro conjI c l r1 rA p(1) p(3) p(4) ne reject notR approve two len1 not1 refused
        executed stateA)
qed

text \<open>
  C9. \<open>create\<close> fails with \<open>InvalidThreshold\<close> when the threshold is below 1 or above
  the number of members, and with a configuration error when two entries share an
  identity; a registry that was constructed holds the members and the threshold it was
  given, with \<open>1 \<le> threshold \<le> member count\<close> and pairwise distinct identities.
\<close>

theorem create_validates:
  "(t < 1 \<or> int (length ms) < t \<longrightarrow> create ms t = Inl InvalidThreshold) \<and>
   (\<not> distinct (map pubkey ms) \<longrightarrow> (\<exists>e. create ms t = Inl e \<and> ConfigurationError e)) \<and>
   (create ms t = Inr reg \<longrightarrow>
      reg = \<lparr>members = ms, threshold = t\<rparr> \<and>
      1 \<le> threshold reg \<and> threshold reg \<le> int (length (members reg)) \<and>
      distinct (map pubkey (members reg)))"
  by (auto simp: create_def split: if_splits)

theorem create_validates_witness:
  "create demo_members 0 = Inl InvalidThreshold \<and>
   create demo_members 4 = Inl InvalidThreshold \<and>
   (\<exists>e. create (demo_members @ [\<lparr>pubkey = member1_key, permissions = 3\<rparr>]) 2 = Inl e
        \<and> ConfigurationError e) \<and>
   create demo_members 2 = Inr \<lparr>members = demo_members, threshold = 2\<rparr> \<and>
   (1::int) \<le> threshold \<lparr>members = demo_members, threshold = 2\<rparr> \<and>
   threshold \<lparr>members = demo_members, threshold = 2\<rparr>
     \<le> int (length (members \<lparr>members = demo_members, threshold = 2\<rparr>))"
proof -
  have d: "\<not> distinct (map pubkey (demo_members @ [\<lparr>pubkey = member1_key, permissions = 3\<rparr>]))"
    by (simp add: demo_members_def)
  have l: "length demo_members = 3"
    by (simp add: demo_members_def)
  show ?thesis
    using d l demo_create
      create_validates [of 0 demo_members undefined]
      create_validates [of 4 demo_members undefined]
      create_validates [of 2 "demo_members @ [\<lparr>pubkey = member1_key, permissions = 3\<rparr>]" undefined]
      create_validates [of 2 demo_members "\<lparr>members = demo_members, threshold = 2\<rparr>"]
    by simp
qed

end
